theory Spec2Isabelle
  imports Complex_Main
begin

section \<open>Python values used by the program\<close>

text \<open>
  The program is Python. A string is modelled as a HOL string, each character standing
  for a code point below 256; the string operations below follow Python's \<^verbatim>\<open>str\<close> methods
  on such text. A float is modelled by its exact value, with every operation rounded as
  IEEE 754 double precision rounds it. An exception is a value of \<open>py_exception\<close>, and a
  call that may raise returns \<open>py_exception + 'a\<close>.
\<close>

datatype py_exception =
  ValueError | IndexError | ZeroDivisionError | ImportError | OSError | LLMError | StoreError

subsection \<open>Characters\<close>

definition is_space :: "char \<Rightarrow> bool" where
  \<comment> \<open>\<^verbatim>\<open>str.isspace\<close> on one character: the whitespace of \<^verbatim>\<open>split()\<close> and \<^verbatim>\<open>strip()\<close>\<close>
  "is_space c = (c \<in> set [CHR 0x09, CHR 0x0A, CHR 0x0B, CHR 0x0C, CHR 0x0D,
                            CHR 0x1C, CHR 0x1D, CHR 0x1E, CHR 0x1F, CHR '' '',
                            CHR 0x85, CHR 0xA0])"

definition is_upper :: "char \<Rightarrow> bool" where
  \<comment> \<open>the characters that \<^verbatim>\<open>str.lower\<close> changes: A to Z, and the capitals from 0xC0 to 0xDE
      but for the sign 0xD7\<close>
  "is_upper c =
     (let n = (of_char c :: nat)
      in (65 \<le> n \<and> n \<le> 90) \<or> (192 \<le> n \<and> n \<le> 214) \<or> (216 \<le> n \<and> n \<le> 222))"

definition is_digit :: "char \<Rightarrow> bool" where
  "is_digit c = (let n = (of_char c :: nat) in 48 \<le> n \<and> n \<le> 57)"

definition lower_char :: "char \<Rightarrow> char" where
  \<comment> \<open>a capital becomes its small letter: the code point plus 32, that is bit 5 set\<close>
  "lower_char c = (if is_upper c then
      (case c of Char b0 b1 b2 b3 b4 b5 b6 b7 \<Rightarrow> Char b0 b1 b2 b3 b4 True b6 b7) else c)"

definition digit_val :: "char \<Rightarrow> nat" where
  "digit_val c = of_char c - 48"

subsection \<open>String methods\<close>

definition str_lower :: "string \<Rightarrow> string" where
  "str_lower s = map lower_char s"

fun startswith :: "string \<Rightarrow> string \<Rightarrow> bool" where
  \<comment> \<open>\<^verbatim>\<open>s.startswith(p)\<close>\<close>
  "startswith s [] = True"
| "startswith [] (p # ps) = False"
| "startswith (c # cs) (p # ps) = (c = p \<and> startswith cs ps)"

fun str_contains :: "string \<Rightarrow> string \<Rightarrow> bool" where
  \<comment> \<open>\<^verbatim>\<open>sub in s\<close>\<close>
  "str_contains [] sub = (sub = [])"
| "str_contains (c # cs) sub = (startswith (c # cs) sub \<or> str_contains cs sub)"

fun split_on :: "char \<Rightarrow> string \<Rightarrow> string list" where
  \<comment> \<open>\<^verbatim>\<open>s.split(sep)\<close> for a separator of one character: every occurrence cuts\<close>
  "split_on sep [] = [[]]"
| "split_on sep (c # cs) =
     (if c = sep then [] # split_on sep cs
      else (case split_on sep cs of
              [] \<Rightarrow> [[c]]
            | w # ws \<Rightarrow> (c # w) # ws))"

function str_split :: "string \<Rightarrow> string list" where
  \<comment> \<open>\<^verbatim>\<open>s.split()\<close>: the maximal runs of characters that are not whitespace\<close>
  "str_split [] = []"
| "str_split (c # cs) =
     (if is_space c then str_split cs
      else takeWhile (\<lambda>x. \<not> is_space x) (c # cs) # str_split (dropWhile (\<lambda>x. \<not> is_space x) cs))"
  by pat_completeness auto
termination
  by (relation "measure length") (auto simp: length_dropWhile_le less_Suc_eq_le)

definition split_once :: "char \<Rightarrow> string \<Rightarrow> string list" where
  \<comment> \<open>\<^verbatim>\<open>s.split(sep, 1)\<close> for a separator of one character: at most one cut\<close>
  "split_once sep s =
     (if sep \<in> set s
      then [takeWhile (\<lambda>c. c \<noteq> sep) s, tl (dropWhile (\<lambda>c. c \<noteq> sep) s)]
      else [s])"

definition strip_chars :: "string \<Rightarrow> string \<Rightarrow> string" where
  \<comment> \<open>\<^verbatim>\<open>s.strip(chars)\<close>: removes leading and trailing characters of the set only\<close>
  "strip_chars chars s =
     rev (dropWhile (\<lambda>c. c \<in> set chars) (rev (dropWhile (\<lambda>c. c \<in> set chars) s)))"

definition str_strip :: "string \<Rightarrow> string" where
  \<comment> \<open>\<^verbatim>\<open>s.strip()\<close>\<close>
  "str_strip s = rev (dropWhile is_space (rev (dropWhile is_space s)))"

function str_replace :: "string \<Rightarrow> string \<Rightarrow> string \<Rightarrow> string" where
  \<comment> \<open>\<^verbatim>\<open>s.replace(old, new)\<close>: occurrences are found from the left and do not overlap\<close>
  "str_replace old new [] = (if old = [] then new else [])"
| "str_replace old new (c # cs) =
     (if old = [] then new @ concat (map (\<lambda>x. x # new) (c # cs))
      else if startswith (c # cs) old then new @ str_replace old new (drop (length old) (c # cs))
      else c # str_replace old new cs)"
  by pat_completeness auto
termination
  by (relation "measure (\<lambda>(old, new, s). length s)") auto

definition rfind :: "string \<Rightarrow> char \<Rightarrow> int" where
  \<comment> \<open>\<^verbatim>\<open>s.rfind(c)\<close>: the last position of the character, or -1\<close>
  "rfind s c =
     (if c \<in> set s then int (length s) - 1 - int (length (takeWhile (\<lambda>x. x \<noteq> c) (rev s)))
      else - 1)"

definition index :: "'a list \<Rightarrow> nat \<Rightarrow> py_exception + 'a" where
  \<comment> \<open>\<^verbatim>\<open>xs[i]\<close> for \<open>i \<ge> 0\<close>\<close>
  "index xs i = (if i < length xs then Inr (xs ! i) else Inl IndexError)"

definition slice_to :: "int \<Rightarrow> 'a list \<Rightarrow> 'a list" where
  \<comment> \<open>\<^verbatim>\<open>xs[:n]\<close>; a negative \<open>n\<close> counts from the end\<close>
  "slice_to n xs = (if 0 \<le> n then take (nat n) xs else take (nat (int (length xs) + n)) xs)"

subsection \<open>Parsing an integer\<close>

fun int_body :: "string \<Rightarrow> bool" where
  \<comment> \<open>decimal digits, where one underscore may stand between two digits\<close>
  "int_body [] = False"
| "int_body [c] = is_digit c"
| "int_body (c # d # cs) =
     (is_digit c \<and> (if d = CHR ''_'' then int_body cs else int_body (d # cs)))"

definition int_value :: "string \<Rightarrow> nat" where
  "int_value s = foldl (\<lambda>acc c. if c = CHR ''_'' then acc else acc * 10 + digit_val c) 0 s"

definition py_int :: "string \<Rightarrow> py_exception + int" where
  \<comment> \<open>\<^verbatim>\<open>int(s)\<close>: surrounding whitespace, an optional sign, then the digits; more than 4300
      digits are refused (the default limit of the interpreter)\<close>
  "py_int s =
     (let t = str_strip s;
          neg = (t \<noteq> [] \<and> hd t = CHR ''-'');
          body = (if t \<noteq> [] \<and> (hd t = CHR ''-'' \<or> hd t = CHR ''+'') then tl t else t)
      in if int_body body \<and> length (filter is_digit body) \<le> 4300
         then Inr (if neg then - int (int_value body) else int (int_value body))
         else Inl ValueError)"

subsection \<open>Floats\<close>

text \<open>
  A Python float is an IEEE 754 double. The model keeps the exact value of a float as a
  real number. An operation computes the exact result and rounds it to the nearest number
  with a significand of 53 bits, a tie going to the even significand: \<open>to_double\<close>.
  Comparisons are exact. Infinities, NaN, the sign of zero and the bounds of the exponent
  (results beyond about 1.8e308 in size, and quotients below about 2.2e-308) are outside
  the model.
\<close>

function ilog2 :: "int \<Rightarrow> int" where
  \<comment> \<open>for \<open>n \<ge> 1\<close>, the \<open>e\<close> with \<open>2 ^ e \<le> n < 2 ^ (e + 1)\<close>\<close>
  "ilog2 n = (if n < 2 then 0 else 1 + ilog2 (n div 2))"
  by pat_completeness auto
termination
  by (relation "measure nat") auto

declare ilog2.simps [simp del]

definition clog2 :: "int \<Rightarrow> int" where
  \<comment> \<open>for \<open>m \<ge> 1\<close>, the least \<open>e\<close> with \<open>m \<le> 2 ^ e\<close>\<close>
  "clog2 m = (if m \<le> 1 then 0 else 1 + ilog2 (m - 1))"

definition exponent :: "real \<Rightarrow> int" where
  \<comment> \<open>for \<open>a > 0\<close>, the \<open>e\<close> with \<open>2 ^ e \<le> a < 2 ^ (e + 1)\<close>\<close>
  "exponent a = (if 1 \<le> a then ilog2 \<lfloor>a\<rfloor> else - clog2 \<lceil>1 / a\<rceil>)"

definition pow2 :: "int \<Rightarrow> real" where
  "pow2 k = (if 0 \<le> k then 2 ^ nat k else 1 / 2 ^ nat (- k))"

definition round_half_even :: "real \<Rightarrow> int" where
  \<comment> \<open>the nearest integer, a tie going to the even one\<close>
  "round_half_even y =
     (let f = \<lfloor>y\<rfloor>; r = y - of_int f
      in if r < 1 / 2 then f else if 1 / 2 < r then f + 1 else if even f then f else f + 1)"

definition to_double :: "real \<Rightarrow> real" where
  \<comment> \<open>the double nearest to \<open>x\<close>; \<open>u\<close> is the distance between neighbouring doubles at \<open>x\<close>\<close>
  "to_double x =
     (if x = 0 then 0
      else (let u = pow2 (exponent \<bar>x\<bar> - 52) in of_int (round_half_even (x / u)) * u))"

definition fsub :: "real \<Rightarrow> real \<Rightarrow> real" where
  \<comment> \<open>\<^verbatim>\<open>a - b\<close> on floats (an \<^verbatim>\<open>int\<close> operand is converted first, exactly for small ones)\<close>
  "fsub a b = to_double (a - b)"

definition fdiv :: "real \<Rightarrow> real \<Rightarrow> real" where
  \<comment> \<open>\<^verbatim>\<open>a / b\<close> on floats, for a divisor that is not zero\<close>
  "fdiv a b = to_double (a / b)"

definition true_div :: "int \<Rightarrow> int \<Rightarrow> py_exception + real" where
  \<comment> \<open>\<^verbatim>\<open>a / b\<close> on two \<^verbatim>\<open>int\<close>s: the exact quotient, rounded once\<close>
  "true_div a b = (if b = 0 then Inl ZeroDivisionError else Inr (to_double (of_int a / of_int b)))"

definition round1 :: "real \<Rightarrow> real" where
  \<comment> \<open>\<^verbatim>\<open>round(x, 1)\<close>: the exact value of the float is rounded to the nearest multiple of one
      tenth, a tie going to the even one, and the float nearest to that is returned\<close>
  "round1 x = to_double (of_int (round_half_even (x * 10)) / 10)"

section \<open>Response evaluator (agent/evaluator.py)\<close>

record ResponseScore =
  overall :: int
  strengths :: "string list"
  improvements :: "string list"
  raw_feedback :: string

subsection \<open>\<^verbatim>\<open>_parse_evaluation\<close>\<close>

fun scan_words :: "string list \<Rightarrow> int option" where
  \<comment> \<open>the inner loop over \<^verbatim>\<open>line.split()\<close>: \<^verbatim>\<open>continue\<close> on ValueError, \<^verbatim>\<open>break\<close> at the
      first number in 1..10; a number out of range goes on to the next word\<close>
  "scan_words [] = None"
| "scan_words (w # ws) =
     (case py_int (strip_chars ''():/'' w) of
        Inl e \<Rightarrow> scan_words ws
      | Inr num \<Rightarrow> if 1 \<le> num \<and> num \<le> 10 then Some num else scan_words ws)"

definition colon_suffix :: "string \<Rightarrow> py_exception + string" where
  \<comment> \<open>\<^verbatim>\<open>line.split(":", 1)[1].strip()\<close>\<close>
  "colon_suffix line =
     (case index (split_once CHR '':'' line) 1 of
        Inl e \<Rightarrow> Inl e
      | Inr s \<Rightarrow> Inr (str_strip s))"

definition parse_line ::
  "string \<Rightarrow> int \<times> string list \<times> string list \<Rightarrow> py_exception + (int \<times> string list \<times> string list)" where
  \<comment> \<open>one iteration of the loop over the lines; the state is (score, strengths, improvements)\<close>
  "parse_line line st =
     (case st of (score, strs, imps) \<Rightarrow>
      let line_lower = str_lower line;
          score1 = (if str_contains line_lower ''score'' \<or> str_contains line ''/10''
                    then (case scan_words (str_split line) of None \<Rightarrow> score | Some num \<Rightarrow> num)
                    else score);
          r1 = (if str_contains line_lower ''strength'' \<and> str_contains line '':''
                then (case colon_suffix line of
                        Inl e \<Rightarrow> Inl e
                      | Inr content \<Rightarrow> Inr (if content \<noteq> [] then strs @ [content] else strs))
                else Inr strs)
      in case r1 of
           Inl e \<Rightarrow> Inl e
         | Inr strs1 \<Rightarrow>
             if list_ex (\<lambda>word. str_contains line_lower word) [''improve'', ''suggestion'', ''consider'']
             then (if str_contains line '':''
                   then (case colon_suffix line of
                           Inl e \<Rightarrow> Inl e
                         | Inr content \<Rightarrow>
                             Inr (score1, strs1, (if content \<noteq> [] then imps @ [content] else imps)))
                   else Inr (score1, strs1, imps))
             else Inr (score1, strs1, imps))"

fun parse_lines ::
  "string list \<Rightarrow> int \<times> string list \<times> string list \<Rightarrow> py_exception + (int \<times> string list \<times> string list)" where
  "parse_lines [] st = Inr st"
| "parse_lines (line # rest) st =
     (case parse_line line st of Inl e \<Rightarrow> Inl e | Inr st1 \<Rightarrow> parse_lines rest st1)"

definition parse_evaluation :: "string \<Rightarrow> py_exception + ResponseScore" where
  "parse_evaluation evaluation =
     (case parse_lines (split_on CHR 0x0A evaluation) (7, [], []) of
        Inl e \<Rightarrow> Inl e
      | Inr (score, strs, imps) \<Rightarrow>
          Inr \<lparr>overall = score, strengths = strs, improvements = imps,
               raw_feedback = evaluation\<rparr>)"

subsection \<open>Session metrics\<close>

text \<open>
  A \<^verbatim>\<open>datetime\<close> is modelled as a whole number of microseconds, the resolution of the
  Python type; the difference of two of them is a \<^verbatim>\<open>timedelta\<close>.
\<close>

record SessionMetrics =
  session_id :: string
  interview_type :: string
  started_at :: int
  ended_at :: "int option"
  total_questions :: int
  questions_answered :: int
  average_score :: real
  scores :: "ResponseScore list"
  total_speaking_time_seconds :: real
  average_response_time_seconds :: real

definition total_overall :: "ResponseScore list \<Rightarrow> int" where
  \<comment> \<open>\<^verbatim>\<open>sum(s.overall for s in xs)\<close>\<close>
  "total_overall xs = sum_list (map overall xs)"

definition add_score :: "SessionMetrics \<Rightarrow> ResponseScore \<Rightarrow> py_exception + SessionMetrics" where
  "add_score m score =
     (let scores1 = scores m @ [score];
          total = total_overall scores1
      in case true_div total (int (length scores1)) of
           Inl e \<Rightarrow> Inl e
         | Inr avg \<Rightarrow>
             Inr (m\<lparr>scores := scores1,
                     questions_answered := questions_answered m + 1,
                     average_score := avg\<rparr>))"

definition total_seconds :: "int \<Rightarrow> real" where
  \<comment> \<open>\<^verbatim>\<open>timedelta.total_seconds()\<close>: the microseconds divided by \<open>10 ^ 6\<close>\<close>
  "total_seconds delta = to_double (of_int delta / 1000000)"

definition duration_minutes :: "SessionMetrics \<Rightarrow> real" where
  "duration_minutes m =
     (case ended_at m of
        None \<Rightarrow> 0
      | Some e \<Rightarrow> round1 (fdiv (total_seconds (e - started_at m)) 60))"

definition score_trend :: "SessionMetrics \<Rightarrow> py_exception + string" where
  "score_trend m =
     (if length (scores m) < 3 then Inr ''not_enough_data''
      else
        let first_half = take (length (scores m) div 2) (scores m);
            second_half = drop (length (scores m) div 2) (scores m)
        in case true_div (total_overall first_half) (int (length first_half)) of
             Inl e \<Rightarrow> Inl e
           | Inr first_avg \<Rightarrow>
               (case true_div (total_overall second_half) (int (length second_half)) of
                  Inl e \<Rightarrow> Inl e
                | Inr second_avg \<Rightarrow>
                    let diff = fsub second_avg first_avg
                    in Inr (if diff > 1 / 2 then ''improving''
                            else if diff < - (1 / 2) then ''declining''
                            else ''stable'')))"

fun unique_items :: "string list \<Rightarrow> string set \<times> string list \<Rightarrow> string set \<times> string list" where
  \<comment> \<open>the loop that keeps an item the first time it is met; the state is (seen, unique)\<close>
  "unique_items [] st = st"
| "unique_items (item # rest) (seen, unique) =
     (if item \<notin> seen then unique_items rest (insert item seen, unique @ [item])
      else unique_items rest (seen, unique))"

definition aggregate_feedback :: "(ResponseScore \<Rightarrow> string list) \<Rightarrow> SessionMetrics \<Rightarrow> string list" where
  \<comment> \<open>the first argument stands for \<^verbatim>\<open>getattr(score, field_name, [])\<close>\<close>
  "aggregate_feedback field m =
     (let all_items = concat (map field (scores m))
      in slice_to 5 (snd (unique_items all_items ({}, []))))"

datatype py_value = VStr string | VInt int | VFloat real | VList "string list"

definition to_summary :: "SessionMetrics \<Rightarrow> py_exception + (string \<times> py_value) list" where
  \<comment> \<open>the returned dict, as the list of its items in insertion order\<close>
  "to_summary m =
     (case score_trend m of
        Inl e \<Rightarrow> Inl e
      | Inr trend \<Rightarrow>
          Inr [(''session_id'', VStr (session_id m)),
               (''interview_type'', VStr (interview_type m)),
               (''duration_minutes'', VFloat (duration_minutes m)),
               (''questions_answered'', VInt (questions_answered m)),
               (''average_score'', VFloat (round1 (average_score m))),
               (''score_trend'', VStr trend),
               (''top_strengths'', VList (aggregate_feedback strengths m)),
               (''areas_to_improve'', VList (aggregate_feedback improvements m))])"

subsection \<open>The evaluator\<close>

text \<open>
  The language model is outside the program: \<open>client\<close> stands for
  \<^verbatim>\<open>chat.completions.create(...).choices[0].message.content\<close>, given the messages as
  (role, content) pairs. It answers with the content (which may be \<^verbatim>\<open>None\<close>) or raises.
\<close>

type_synonym llm_client = "(string \<times> string) list \<Rightarrow> py_exception + string option"

record ResponseEvaluator =
  sessions :: "string \<rightharpoonup> SessionMetrics"

definition get_evaluation_prompt :: string where
  "get_evaluation_prompt =
     ''You are evaluating a candidate's interview response.\<newline>\<newline>'' @
     ''Provide a brief, constructive evaluation with:\<newline>'' @
     ''1. **Score** (1-10): Overall quality of the response\<newline>'' @
     ''2. **Strengths**: What the candidate did well (1-2 points)\<newline>'' @
     ''3. **Improvements**: Specific, actionable feedback (1-2 points)\<newline>\<newline>'' @
     ''Be encouraging but honest. Focus on the most impactful feedback.\<newline>'' @
     ''Keep your evaluation concise - 2-3 sentences max.''"

definition evaluation_messages :: "string \<Rightarrow> string \<Rightarrow> (string \<times> string) list" where
  "evaluation_messages question response =
     [(''system'', get_evaluation_prompt),
      (''user'', ''Question: '' @ question @ ''\<newline>\<newline>Candidate Response: '' @ response)]"

definition generate_evaluation :: "llm_client \<Rightarrow> string \<Rightarrow> string \<Rightarrow> string" where
  \<comment> \<open>the \<^verbatim>\<open>try\<close> block returns \<^verbatim>\<open>content or ""\<close>; \<^verbatim>\<open>except Exception\<close> returns the fixed text\<close>
  "generate_evaluation client question response =
     (case client (evaluation_messages question response) of
        Inl e \<Rightarrow> ''Unable to evaluate response.''
      | Inr None \<Rightarrow> []
      | Inr (Some content) \<Rightarrow> content)"

definition start_session :: "int \<Rightarrow> ResponseEvaluator \<Rightarrow> string \<Rightarrow> string \<Rightarrow> SessionMetrics \<times> ResponseEvaluator" where
  \<comment> \<open>the first argument is \<^verbatim>\<open>datetime.now()\<close>\<close>
  "start_session now ev sid itype =
     (let metrics = \<lparr>session_id = sid, interview_type = itype, started_at = now,
                      ended_at = None, total_questions = 0, questions_answered = 0,
                      average_score = 0, scores = [], total_speaking_time_seconds = 0,
                      average_response_time_seconds = 0\<rparr>
      in (metrics, ev\<lparr>sessions := (sessions ev)(sid \<mapsto> metrics)\<rparr>))"

definition end_session :: "int \<Rightarrow> ResponseEvaluator \<Rightarrow> string \<Rightarrow> SessionMetrics option \<times> ResponseEvaluator" where
  "end_session now ev sid =
     (case sessions ev sid of
        None \<Rightarrow> (None, ev)
      | Some session \<Rightarrow>
          (let session1 = session\<lparr>ended_at := Some now\<rparr>
           in (Some session1, ev\<lparr>sessions := (sessions ev)(sid \<mapsto> session1)\<rparr>)))"

definition evaluate_response ::
  "llm_client \<Rightarrow> ResponseEvaluator \<Rightarrow> string \<Rightarrow> string \<Rightarrow> string
     \<Rightarrow> py_exception + (ResponseScore \<times> ResponseEvaluator)" where
  "evaluate_response client ev sid question response =
     (let evaluation = generate_evaluation client question response
      in case parse_evaluation evaluation of
           Inl e \<Rightarrow> Inl e
         | Inr score \<Rightarrow>
             (case sessions ev sid of
                None \<Rightarrow> Inr (score, ev)
              | Some session \<Rightarrow>
                  (case add_score session score of
                     Inl e \<Rightarrow> Inl e
                   | Inr session1 \<Rightarrow>
                       Inr (score, ev\<lparr>sessions := (sessions ev)(sid \<mapsto> session1)\<rparr>))))"

section \<open>Documents\<close>

datatype meta_value = MStr string | MInt int | MBool bool

record Document =
  page_content :: string
  metadata :: "string \<rightharpoonup> meta_value"

section \<open>Context retriever (rag/retriever.py)\<close>

text \<open>
  The vector store is outside the program: \<open>vector_store\<close> stands for
  \<^verbatim>\<open>similarity_search_with_score(query, k, filter_dict)\<close>, which answers with
  (document, distance) pairs in rank order or raises.
\<close>

type_synonym vector_store =
  "string \<Rightarrow> int \<Rightarrow> (string \<times> string) list option \<Rightarrow> py_exception + (Document \<times> real) list"

record ContextRetriever =
  vectorstore :: vector_store
  default_k :: int
  score_threshold :: real

definition create_retriever :: "vector_store \<Rightarrow> ContextRetriever" where
  \<comment> \<open>a retriever with the defaults of \<^verbatim>\<open>__init__\<close>: \<^verbatim>\<open>default_k=4\<close>, \<^verbatim>\<open>score_threshold=0.7\<close>\<close>
  "create_retriever store =
     \<lparr>vectorstore = store, default_k = 4, score_threshold = to_double (7 / 10)\<rparr>"

definition retrieve ::
  "ContextRetriever \<Rightarrow> string \<Rightarrow> string option \<Rightarrow> int option \<Rightarrow> py_exception + Document list" where
  "retrieve r query category k =
     (let num_results = (case k of None \<Rightarrow> default_k r
                                 | Some n \<Rightarrow> if n = 0 then default_k r else n);
          filter_dict = (case category of None \<Rightarrow> None
                                        | Some c \<Rightarrow> if c = [] then None else Some [(''category'', c)])
      in case vectorstore r query (num_results * 2) filter_dict of
           Inl e \<Rightarrow> Inl e
         | Inr results \<Rightarrow>
             Inr (slice_to num_results
                    (map fst (filter (\<lambda>(doc, score). score \<le> fsub 1 (score_threshold r)) results))))"

fun scan_question_lines :: "string list \<Rightarrow> string list \<Rightarrow> string list" where
  \<comment> \<open>the loop over the lines of one document; the second argument is \<^verbatim>\<open>questions\<close>\<close>
  "scan_question_lines [] questions = questions"
| "scan_question_lines (line # rest) questions =
     (if startswith line ''Q:'' \<or> startswith line ''**Q:''
      then (let question = str_strip (str_replace ''Q:'' [] (str_replace ''**Q:'' [] line))
            in if question \<noteq> [] then scan_question_lines rest (questions @ [question])
               else scan_question_lines rest questions)
      else scan_question_lines rest questions)"

fun scan_question_docs :: "Document list \<Rightarrow> string list \<Rightarrow> string list" where
  \<comment> \<open>the loop over the retrieved documents\<close>
  "scan_question_docs [] questions = questions"
| "scan_question_docs (doc # rest) questions =
     (if metadata doc ''content_type'' = Some (MStr ''qa_pair'')
      then scan_question_docs rest
             (scan_question_lines (split_on CHR 0x0A (page_content doc)) questions)
      else scan_question_docs rest questions)"

definition get_sample_questions ::
  "ContextRetriever \<Rightarrow> string \<Rightarrow> string option \<Rightarrow> int \<Rightarrow> py_exception + string list" where
  "get_sample_questions r itype topic count =
     (let query = (case topic of
                     None \<Rightarrow> itype @ '' interview questions''
                   | Some t \<Rightarrow> if t = [] then itype @ '' interview questions'' else t)
      in case retrieve r query (Some itype) (Some count) of
           Inl e \<Rightarrow> Inl e
         | Inr docs \<Rightarrow> Inr (slice_to count (scan_question_docs docs [])))"

section \<open>Semantic chunker (rag/chunker.py)\<close>

text \<open>
  \<open>splitter\<close> stands for \<^verbatim>\<open>RecursiveCharacterTextSplitter.split_text\<close>, which belongs to
  a library and is taken as given.
\<close>

definition DEFAULT_SEPARATORS :: "string list" where
  "DEFAULT_SEPARATORS =
     [''\<newline>## '', ''\<newline>### '', ''\<newline>\<newline>'', ''\<newline>- '', ''\<newline>* '', ''\<newline>'', ''. '', '' '', []]"

record SemanticChunker =
  chunk_size :: int
  chunk_overlap :: int
  separators :: "string list"
  splitter :: "string \<Rightarrow> string list"

definition enhance_metadata :: "Document \<Rightarrow> int \<Rightarrow> int \<Rightarrow> Document" where
  "enhance_metadata document chunk_index total_chunks =
     (let content = page_content document;
          md = (metadata document)
                 (''chunk_index'' \<mapsto> MInt chunk_index,
                  ''total_chunks'' \<mapsto> MInt total_chunks,
                  ''chunk_size'' \<mapsto> MInt (int (length content)),
                  ''is_first_chunk'' \<mapsto> MBool (chunk_index = 0),
                  ''is_last_chunk'' \<mapsto> MBool (chunk_index = total_chunks - 1))
      in document\<lparr>metadata :=
           md(''content_type'' \<mapsto>
                MStr (if startswith content ''Q:'' \<or> startswith content ''**Q:'' then ''qa_pair''
                      else if startswith content ''#'' then ''heading''
                      else ''text''))\<rparr>)"

definition chunk_single_document :: "SemanticChunker \<Rightarrow> Document \<Rightarrow> Document list" where
  "chunk_single_document ch document =
     (let content = page_content document
      in if int (length content) \<le> chunk_size ch
         then [enhance_metadata document 0 1]
         else
           (let chunks = splitter ch content
            in map (\<lambda>(i, chunk_text).
                      enhance_metadata
                        \<lparr>page_content = str_strip chunk_text, metadata = metadata document\<rparr>
                        (int i) (int (length chunks)))
                   (enumerate 0 chunks)))"

definition chunk_documents :: "SemanticChunker \<Rightarrow> Document list \<Rightarrow> Document list" where
  "chunk_documents ch documents = concat (map (chunk_single_document ch) documents)"

section \<open>Document loader (rag/loader.py)\<close>

subsection \<open>Paths\<close>

text \<open>
  A \<^verbatim>\<open>pathlib\<close> path on a POSIX system: whether it starts at the root, and its
  segments. The operations are lexical, as those of \<^verbatim>\<open>PurePosixPath\<close> are.
\<close>

record path =
  is_absolute :: bool
  segments :: "string list"

definition parts :: "path \<Rightarrow> string list" where
  "parts p = (if is_absolute p then ''/'' # segments p else segments p)"

definition joinpath :: "path \<Rightarrow> path \<Rightarrow> path" where
  \<comment> \<open>\<^verbatim>\<open>a / b\<close>\<close>
  "joinpath a b =
     (if is_absolute b then b
      else \<lparr>is_absolute = is_absolute a, segments = segments a @ segments b\<rparr>)"

definition path_name :: "path \<Rightarrow> string" where
  "path_name p = (if segments p = [] then [] else last (segments p))"

definition path_suffix :: "path \<Rightarrow> string" where
  "path_suffix p =
     (let name = path_name p; i = rfind name CHR ''.''
      in if 0 < i \<and> i < int (length name) - 1 then drop (nat i) name else [])"

fun join_with :: "string \<Rightarrow> string list \<Rightarrow> string" where
  \<comment> \<open>\<^verbatim>\<open>sep.join(xs)\<close>\<close>
  "join_with sep [] = []"
| "join_with sep [x] = x"
| "join_with sep (x # y # ys) = x @ sep @ join_with sep (y # ys)"

definition path_str :: "path \<Rightarrow> string" where
  "path_str p =
     (if is_absolute p then ''/'' @ join_with ''/'' (segments p)
      else if segments p = [] then ''.''
      else join_with ''/'' (segments p))"

definition relative_to :: "path \<Rightarrow> path \<Rightarrow> py_exception + path" where
  "relative_to p other =
     (if is_absolute p = is_absolute other
         \<and> take (length (segments other)) (segments p) = segments other
      then Inr \<lparr>is_absolute = False, segments = drop (length (segments other)) (segments p)\<rparr>
      else Inl ValueError)"

subsection \<open>The file system\<close>

text \<open>
  The file system and the PDF library are outside the program. \<open>path_exists\<close> is
  \<^verbatim>\<open>Path.exists\<close>, which answers or raises the \<^verbatim>\<open>OSError\<close> of the underlying \<^verbatim>\<open>stat\<close> call
  when that is none of the errors it reads as a missing file; \<open>read_text\<close> is
  \<^verbatim>\<open>Path.read_text\<close>; \<open>import_pypdf\<close> is the exception raised by
  \<^verbatim>\<open>from pypdf import PdfReader\<close> (if any); and \<open>pdf_reader\<close> gives for each page of a file
  what \<^verbatim>\<open>extract_text\<close> returns or raises.
\<close>

record filesystem =
  path_exists :: "path \<Rightarrow> py_exception + bool"
  read_text :: "path \<Rightarrow> py_exception + string"
  import_pypdf :: "py_exception option"
  pdf_reader :: "path \<Rightarrow> py_exception + (py_exception + string) list"

subsection \<open>The loader\<close>

record DocumentLoader =
  base_path :: path

definition SUPPORTED_EXTENSIONS :: "string set" where
  "SUPPORTED_EXTENSIONS = {''.md'', ''.txt'', ''.pdf''}"

definition resolve_path :: "DocumentLoader \<Rightarrow> path \<Rightarrow> path" where
  "resolve_path l p = (if is_absolute p then p else joinpath (base_path l) p)"

definition extract_category :: "DocumentLoader \<Rightarrow> path \<Rightarrow> string" where
  "extract_category l p =
     (case relative_to p (base_path l) of
        Inl e \<Rightarrow> ''general''
      | Inr relative \<Rightarrow>
          (if length (parts relative) > 1 then parts relative ! 0 else ''general''))"

definition load_text :: "filesystem \<Rightarrow> DocumentLoader \<Rightarrow> path \<Rightarrow> py_exception + Document list" where
  "load_text fs l p =
     (case read_text fs p of
        Inl e \<Rightarrow> Inl e
      | Inr content \<Rightarrow>
          Inr [\<lparr>page_content = content,
                metadata = [''source'' \<mapsto> MStr (path_str p),
                            ''filename'' \<mapsto> MStr (path_name p),
                            ''category'' \<mapsto> MStr (extract_category l p),
                            ''file_type'' \<mapsto> MStr (str_lower (path_suffix p))]\<rparr>])"

fun load_pages ::
  "DocumentLoader \<Rightarrow> path \<Rightarrow> (py_exception + string) list \<Rightarrow> int \<Rightarrow> Document list
     \<Rightarrow> py_exception + Document list" where
  \<comment> \<open>the loop over \<^verbatim>\<open>enumerate(reader.pages)\<close>; the last argument is \<^verbatim>\<open>documents\<close>\<close>
  "load_pages l p [] i documents = Inr documents"
| "load_pages l p (page # rest) i documents =
     (case page of
        Inl e \<Rightarrow> Inl e
      | Inr txt \<Rightarrow>
          (if str_strip txt \<noteq> []
           then load_pages l p rest (i + 1)
                  (documents @
                     [\<lparr>page_content = txt,
                       metadata = [''source'' \<mapsto> MStr (path_str p),
                                   ''filename'' \<mapsto> MStr (path_name p),
                                   ''category'' \<mapsto> MStr (extract_category l p),
                                   ''file_type'' \<mapsto> MStr ''.pdf'',
                                   ''page'' \<mapsto> MInt (i + 1)]\<rparr>])
           else load_pages l p rest (i + 1) documents))"

definition load_pdf :: "filesystem \<Rightarrow> DocumentLoader \<Rightarrow> path \<Rightarrow> py_exception + Document list" where
  "load_pdf fs l p =
     (case import_pypdf fs of
        Some e \<Rightarrow> (if e = ImportError then Inr [] else Inl e)
      | None \<Rightarrow>
          (case pdf_reader fs p of
             Inl e \<Rightarrow> Inl e
           | Inr pages \<Rightarrow> load_pages l p pages 0 []))"

definition load_file :: "filesystem \<Rightarrow> DocumentLoader \<Rightarrow> path \<Rightarrow> py_exception + Document list" where
  \<comment> \<open>the test for existence stands before the \<^verbatim>\<open>try\<close> block, so what it raises leaves the
      function; what the loading inside the block raises is caught\<close>
  "load_file fs l file_path =
     (let p = resolve_path l file_path
      in case path_exists fs p of
           Inl e \<Rightarrow> Inl e
         | Inr found \<Rightarrow>
             if \<not> found then Inr []
             else
               (let extension = str_lower (path_suffix p)
                in if extension \<notin> SUPPORTED_EXTENSIONS then Inr []
                   else (case (if extension = ''.pdf'' then load_pdf fs l p else load_text fs l p) of
                           Inl e \<Rightarrow> Inr []
                         | Inr documents \<Rightarrow> Inr documents)))"

section \<open>Notions used in the statements\<close>

definition line_score :: "string \<Rightarrow> int option" where
  \<comment> \<open>the score that one line sets, if it sets one\<close>
  "line_score line =
     (if str_contains (str_lower line) ''score'' \<or> str_contains line ''/10''
      then scan_words (str_split line) else None)"

definition mean_overall :: "ResponseScore list \<Rightarrow> real" where
  \<comment> \<open>the exact mean of the scores of a list of responses\<close>
  "mean_overall xs = of_int (total_overall xs) / of_nat (length xs)"

fun add_scores :: "SessionMetrics \<Rightarrow> ResponseScore list \<Rightarrow> py_exception + SessionMetrics" where
  \<comment> \<open>a caller that adds one score after the other\<close>
  "add_scores m [] = Inr m"
| "add_scores m (score # rest) =
     (case add_score m score of Inl e \<Rightarrow> Inl e | Inr m1 \<Rightarrow> add_scores m1 rest)"

definition plain_score :: "int \<Rightarrow> ResponseScore" where
  \<comment> \<open>a score without feedback\<close>
  "plain_score n = \<lparr>overall = n, strengths = [], improvements = [], raw_feedback = []\<rparr>"

definition fresh_session :: SessionMetrics where
  "fresh_session = fst (start_session 0 \<lparr>sessions = Map.empty\<rparr> ''s1'' ''technical'')"

definition category_filter :: "string option \<Rightarrow> (string \<times> string) list option" where
  \<comment> \<open>the metadata filter that a call with this category hands to the store\<close>
  "category_filter category =
     (case category of None \<Rightarrow> None
                     | Some c \<Rightarrow> if c = [] then None else Some [(''category'', c)])"

definition doc_near :: Document where
  "doc_near = \<lparr>page_content = ''Q: What is a heap?'', metadata = [''category'' \<mapsto> MStr ''technical'']\<rparr>"

definition doc_far :: Document where
  "doc_far = \<lparr>page_content = ''Q: What is a stack?'', metadata = [''category'' \<mapsto> MStr ''technical'']\<rparr>"

definition sample_retriever :: ContextRetriever where
  \<comment> \<open>the store answers a request for 4 or for 8 candidates, at the distances that the
      floats 0.2 and 0.35 are\<close>
  "sample_retriever =
     create_retriever (\<lambda>query k filter_dict.
        if k = 4 \<or> k = 8
        then Inr [(doc_near, to_double (2 / 10)), (doc_far, to_double (35 / 100))]
        else Inr [])"

definition boundary_retriever :: ContextRetriever where
  \<comment> \<open>the threshold is the float 0.1, and the store answers with one candidate at the
      distance that the float 0.9 is\<close>
  "boundary_retriever =
     \<lparr>vectorstore = (\<lambda>query k filter_dict. Inr [(doc_far, to_double (9 / 10))]),
      default_k = 4, score_threshold = to_double (1 / 10)\<rparr>"

definition question_of_line :: "string \<Rightarrow> string option" where
  \<comment> \<open>the question that one line contributes, if it contributes one\<close>
  "question_of_line line =
     (if startswith line ''Q:'' \<or> startswith line ''**Q:''
      then (let question = str_strip (str_replace ''Q:'' [] (str_replace ''**Q:'' [] line))
            in if question \<noteq> [] then Some question else None)
      else None)"

definition bold_question_doc :: Document where
  \<comment> \<open>a chunk as the chunker emits it, with the marker in bold\<close>
  "bold_question_doc =
     enhance_metadata
       \<lparr>page_content = ''**Q:** What is a heap?\<newline>A: A tree.'',
        metadata = [''category'' \<mapsto> MStr ''technical'']\<rparr> 0 1"

definition bold_retriever :: ContextRetriever where
  "bold_retriever =
     create_retriever (\<lambda>query k filter_dict. Inr [(bold_question_doc, to_double (1 / 10))])"

definition knowledge_loader :: DocumentLoader where
  \<comment> \<open>the loader with the default base directory\<close>
  "knowledge_loader = \<lparr>base_path = \<lparr>is_absolute = False, segments = [''knowledge'']\<rparr>\<rparr>"

definition rel_path :: "string list \<Rightarrow> path" where
  "rel_path segs = \<lparr>is_absolute = False, segments = segs\<rparr>"

definition failing_fs :: filesystem where
  \<comment> \<open>every file but one exists, no text file can be read, and the second page of every PDF
      file cannot be parsed\<close>
  "failing_fs =
     \<lparr>path_exists = (\<lambda>p. Inr (segments p \<noteq> [''knowledge'', ''missing.md''])),
      read_text = (\<lambda>p. Inl OSError),
      import_pypdf = None,
      pdf_reader = (\<lambda>p. Inr [Inr ''page one'', Inl ValueError])\<rparr>"

definition plain_fs :: filesystem where
  \<comment> \<open>every file exists and holds the same text\<close>
  "plain_fs =
     \<lparr>path_exists = (\<lambda>p. Inr True),
      read_text = (\<lambda>p. Inr ''Q: What is an array?''),
      import_pypdf = None,
      pdf_reader = (\<lambda>p. Inr [])\<rparr>"

definition long_name_fs :: filesystem where
  \<comment> \<open>a file system whose names hold at most 255 characters: \<^verbatim>\<open>stat\<close> on a longer name fails
      with \<^verbatim>\<open>ENAMETOOLONG\<close>, which \<^verbatim>\<open>Path.exists\<close> raises as an \<^verbatim>\<open>OSError\<close>\<close>
  "long_name_fs =
     \<lparr>path_exists = (\<lambda>p. if list_ex (\<lambda>seg. 255 < length seg) (segments p)
                          then Inl OSError else Inr True),
      read_text = (\<lambda>p. Inr ''Q: What is an array?''),
      import_pypdf = None,
      pdf_reader = (\<lambda>p. Inr [])\<rparr>"

section \<open>The evaluation parser\<close>

lemmas eval_defs =
  parse_evaluation_def parse_line_def str_lower_def lower_char_def is_upper_def is_space_def
  py_int_def str_strip_def strip_chars_def is_digit_def colon_suffix_def split_once_def
  index_def int_value_def digit_val_def

lemma str_contains_single: "str_contains s [c] = (c \<in> set s)"
  by (induction s) auto

lemma colon_suffix_ok:
  "str_contains line '':'' \<Longrightarrow> \<exists>content. colon_suffix line = Inr content"
  by (simp add: str_contains_single colon_suffix_def split_once_def index_def)

lemma parse_line_ok: "\<exists>st1. parse_line line st = Inr st1"
proof -
  obtain score strs imps where st: "st = (score, strs, imps)"
    by (cases st) auto
  show ?thesis
  proof (cases "str_contains line '':''")
    case True
    then obtain content where "colon_suffix line = Inr content"
      using colon_suffix_ok by blast
    then show ?thesis
      by (simp add: parse_line_def st Let_def)
  next
    case False
    then show ?thesis
      by (simp add: parse_line_def st Let_def)
  qed
qed

lemma parse_lines_ok: "\<exists>st1. parse_lines ls st = Inr st1"
proof (induction ls arbitrary: st)
  case Nil
  show ?case by (rule exI [of _ st]) simp
next
  case (Cons l ls)
  obtain st1 where "parse_line l st = Inr st1"
    using parse_line_ok by blast
  then show ?case using Cons.IH [of st1] by simp
qed

text \<open>The parser returns on every text: no line makes it raise.\<close>

lemma parse_evaluation_ok: "\<exists>score. parse_evaluation evaluation = Inr score"
proof -
  obtain st1 where "parse_lines (split_on CHR 0x0A evaluation) (7, [], []) = Inr st1"
    using parse_lines_ok by blast
  then show ?thesis
    by (cases st1) (simp add: parse_evaluation_def)
qed

lemma parse_line_score:
  assumes "parse_line line (score, strs, imps) = Inr (score1, strs1, imps1)"
  shows "score1 = (case line_score line of None \<Rightarrow> score | Some num \<Rightarrow> num)"
  using assms
  by (auto simp add: parse_line_def line_score_def Let_def
           split: if_splits sum.splits option.splits)

lemma parse_lines_score:
  assumes "parse_lines ls (score, strs, imps) = Inr (score1, strs1, imps1)"
  shows "score1 = foldl (\<lambda>acc line. case line_score line of None \<Rightarrow> acc | Some num \<Rightarrow> num) score ls"
  using assms
proof (induction ls arbitrary: score strs imps)
  case Nil
  then show ?case by simp
next
  case (Cons l ls)
  obtain a b c where step: "parse_line l (score, strs, imps) = Inr (a, b, c)"
    using parse_line_ok [of l "(score, strs, imps)"] by (metis prod_cases3)
  have a: "a = (case line_score l of None \<Rightarrow> score | Some num \<Rightarrow> num)"
    using parse_line_score [OF step] .
  have "parse_lines ls (a, b, c) = Inr (score1, strs1, imps1)"
    using Cons.prems step by simp
  then have "score1 = foldl (\<lambda>acc line. case line_score line of None \<Rightarrow> acc | Some num \<Rightarrow> num) a ls"
    by (rule Cons.IH)
  then show ?case by (simp add: a)
qed

text \<open>
  The score of a text: it starts at 7 and every line that sets a score overwrites it, so
  the last such line decides; a text without such a line keeps 7.
\<close>

lemma parse_evaluation_overall:
  assumes "parse_evaluation evaluation = Inr result"
  shows "overall result =
           foldl (\<lambda>acc line. case line_score line of None \<Rightarrow> acc | Some num \<Rightarrow> num) 7
             (split_on CHR 0x0A evaluation)"
proof -
  obtain a b c where st: "parse_lines (split_on CHR 0x0A evaluation) (7, [], []) = Inr (a, b, c)"
    using parse_lines_ok [of "split_on CHR 0x0A evaluation" "(7, [], [])"] by (metis prod_cases3)
  have "overall result = a"
    using assms st by (auto simp add: parse_evaluation_def)
  then show ?thesis
    using parse_lines_score [OF st] by simp
qed

lemma parse_evaluation_no_score:
  assumes "parse_evaluation evaluation = Inr result"
      and "list_all (\<lambda>line. line_score line = None) (split_on CHR 0x0A evaluation)"
  shows "overall result = 7"
proof -
  have "foldl (\<lambda>acc line. case line_score line of None \<Rightarrow> acc | Some num \<Rightarrow> num) s ls = s"
    if "list_all (\<lambda>line. line_score line = None) ls" for s :: int and ls
    using that by (induction ls arbitrary: s) auto
  then show ?thesis
    using parse_evaluation_overall [OF assms(1)] assms(2) by simp
qed

lemma parse_evaluation_strengths_line:
  "parse_evaluation ''Strengths: Clear structure'' =
     Inr \<lparr>overall = 7, strengths = [''Clear structure''], improvements = [],
          raw_feedback = ''Strengths: Clear structure''\<rparr>"
  by (simp add: eval_defs)

lemma parse_evaluation_plain_score:
  "parse_evaluation ''Score: 8'' =
     Inr \<lparr>overall = 8, strengths = [], improvements = [], raw_feedback = ''Score: 8''\<rparr>"
  by (simp add: eval_defs)

lemma parse_evaluation_last_line_wins:
  "parse_evaluation ''Score: 3\<newline>Final score 9'' =
     Inr \<lparr>overall = 9, strengths = [], improvements = [],
          raw_feedback = ''Score: 3\<newline>Final score 9''\<rparr>"
  by (simp add: eval_defs)

lemma parse_evaluation_no_break_space:
  "parse_evaluation (''Score:'' @ [CHR 0xA0] @ ''8'') =
     Inr \<lparr>overall = 8, strengths = [], improvements = [],
          raw_feedback = ''Score:'' @ [CHR 0xA0] @ ''8''\<rparr>"
  by (simp add: eval_defs)

text \<open>
  Claim C1, on the line \<^verbatim>\<open>Score: 8/10\<close>. The claim says that this line yields the score 8.
  The parser yields 7: the words of the line are \<^verbatim>\<open>Score:\<close> and \<^verbatim>\<open>8/10\<close>, stripping
  \<^verbatim>\<open>():/\<close> only removes characters at the two ends of a word, so the second word stays
  \<^verbatim>\<open>8/10\<close>, which is no integer, and the default is kept.
\<close>

theorem parse_evaluation_score_8_of_10:
  "parse_evaluation ''Score: 8/10'' =
     Inr \<lparr>overall = 7, strengths = [], improvements = [], raw_feedback = ''Score: 8/10''\<rparr>"
  by (simp add: eval_defs)

section \<open>Evaluating a response\<close>

lemma add_score_ok: "\<exists>m1. add_score m score = Inr m1"
  by (simp add: add_score_def true_div_def Let_def)

lemma parse_evaluation_unable:
  "parse_evaluation ''Unable to evaluate response.'' =
     Inr \<lparr>overall = 7, strengths = [], improvements = [],
          raw_feedback = ''Unable to evaluate response.''\<rparr>"
  by (simp add: eval_defs)

text \<open>
  Claim C6. Evaluating a response never raises; and when the call to the language model
  raises, the score returned is 7 with the feedback text
  \<^verbatim>\<open>Unable to evaluate response.\<close> and no strengths and no improvements.
\<close>

theorem evaluate_response_llm_failure:
  "(\<exists>score ev1. evaluate_response client ev sid question response = Inr (score, ev1)) \<and>
   (client (evaluation_messages question response) = Inl e \<longrightarrow>
      (\<exists>ev1. evaluate_response client ev sid question response =
         Inr (\<lparr>overall = 7, strengths = [], improvements = [],
               raw_feedback = ''Unable to evaluate response.''\<rparr>, ev1)))"
proof -
  obtain score where p: "parse_evaluation (generate_evaluation client question response) = Inr score"
    using parse_evaluation_ok by blast
  have total: "\<exists>ev1. evaluate_response client ev sid question response = Inr (score, ev1)"
  proof (cases "sessions ev sid")
    case None
    then show ?thesis by (simp add: evaluate_response_def p)
  next
    case (Some session)
    obtain session1 where "add_score session score = Inr session1"
      using add_score_ok by blast
    then show ?thesis by (simp add: evaluate_response_def p Some)
  qed
  have "score = \<lparr>overall = 7, strengths = [], improvements = [],
                  raw_feedback = ''Unable to evaluate response.''\<rparr>"
    if "client (evaluation_messages question response) = Inl e"
  proof -
    have "generate_evaluation client question response = ''Unable to evaluate response.''"
      using that by (simp add: generate_evaluation_def)
    then show ?thesis using p parse_evaluation_unable by simp
  qed
  then show ?thesis
    using total by auto
qed

theorem evaluate_response_llm_failure_witness:
  "(\<lambda>msgs. Inl LLMError) (evaluation_messages ''Why?'' ''Because.'')
     = (Inl LLMError :: py_exception + string option) \<and>
   (\<exists>ev1. evaluate_response (\<lambda>msgs. Inl LLMError) \<lparr>sessions = Map.empty\<rparr> ''s1'' ''Why?'' ''Because.''
            = Inr (\<lparr>overall = 7, strengths = [], improvements = [],
                    raw_feedback = ''Unable to evaluate response.''\<rparr>, ev1))"
  using evaluate_response_llm_failure
          [of "\<lambda>msgs. Inl LLMError" "\<lparr>sessions = Map.empty\<rparr>" "''s1''" "''Why?''" "''Because.''" LLMError]
  by simp

text \<open>
  Claim C10. For a session id that the evaluator does not know, evaluating a response
  returns the parsed score without raising and leaves the evaluator, with its session map
  and every stored session, as it was.
\<close>

theorem evaluate_response_unknown_session:
  "sessions ev sid = None \<Longrightarrow>
   \<exists>score. parse_evaluation (generate_evaluation client question response) = Inr score \<and>
           evaluate_response client ev sid question response = Inr (score, ev)"
proof -
  assume none: "sessions ev sid = None"
  obtain score where p: "parse_evaluation (generate_evaluation client question response) = Inr score"
    using parse_evaluation_ok by blast
  have "evaluate_response client ev sid question response = Inr (score, ev)"
    by (simp add: evaluate_response_def p none)
  then show ?thesis using p by blast
qed

theorem evaluate_response_unknown_session_witness:
  "sessions \<lparr>sessions = Map.empty\<rparr> ''nobody'' = None \<and>
   evaluate_response (\<lambda>msgs. Inr (Some ''Score: 9'')) \<lparr>sessions = Map.empty\<rparr> ''nobody'' ''Why?'' ''Because.''
     = Inr (\<lparr>overall = 9, strengths = [], improvements = [], raw_feedback = ''Score: 9''\<rparr>,
            \<lparr>sessions = Map.empty\<rparr>)"
  using evaluate_response_unknown_session
          [of "\<lparr>sessions = Map.empty\<rparr>" "''nobody''" "\<lambda>msgs. Inr (Some ''Score: 9'')" "''Why?''" "''Because.''"]
  by (simp add: generate_evaluation_def eval_defs)

section \<open>The session summary\<close>

lemmas float_defs =
  to_double_def exponent_def clog2_def pow2_def round_half_even_def fsub_def fdiv_def
  round1_def Let_def ilog2.simps

text \<open>Some floats, as the interpreter computes them.\<close>

lemma float_literals:
  "to_double (1 / 10) = 3602879701896397 / 36028797018963968"
  "to_double (7 / 10) = 3152519739159347 / 4503599627370496"
  "fsub (to_double (25 / 6)) (to_double (22 / 6)) = 2251799813685250 / 4503599627370496"
  by (simp_all add: float_defs)

lemma round1_examples:
  "round1 (to_double (21 / 20)) = to_double (11 / 10)"
  "round1 (to_double (25 / 4)) = to_double (62 / 10)"
  "round1 6 = 6"
  by (simp_all add: float_defs)

lemma duration_minutes_example:
  "duration_minutes (fresh_session\<lparr>ended_at := Some 3000000\<rparr>) = to_double (1 / 10)"
  by (simp add: duration_minutes_def total_seconds_def fresh_session_def start_session_def
        float_defs)

lemma remdups_drop_dup: "x \<in> set ys \<Longrightarrow> remdups (xs @ x # ys) = remdups (xs @ ys)"
  by (induction xs) auto

lemma unique_items_first_seen:
  "distinct u \<Longrightarrow> snd (unique_items xs (set u, u)) = rev (remdups (rev (u @ xs)))"
proof (induction xs arbitrary: u)
  case Nil
  then show ?case by (simp add: distinct_remdups_id)
next
  case (Cons x xs)
  show ?case
  proof (cases "x \<in> set u")
    case True
    then have "remdups (rev xs @ x # rev u) = remdups (rev xs @ rev u)"
      by (simp add: remdups_drop_dup)
    then show ?thesis
      using True Cons.IH [OF Cons.prems] by simp
  next
    case False
    then have d: "distinct (u @ [x])"
      using Cons.prems by simp
    have "snd (unique_items xs (set (u @ [x]), u @ [x])) = rev (remdups (rev ((u @ [x]) @ xs)))"
      by (rule Cons.IH [OF d])
    then show ?thesis
      using False by simp
  qed
qed

lemma aggregate_feedback_eq:
  "aggregate_feedback field m = take 5 (rev (remdups (rev (concat (map field (scores m))))))"
  using unique_items_first_seen [of "[]" "concat (map field (scores m))"]
  by (simp add: aggregate_feedback_def slice_to_def)

lemma true_div_mean:
  "xs \<noteq> [] \<Longrightarrow> true_div (total_overall xs) (int (length xs)) = Inr (to_double (mean_overall xs))"
  by (simp add: true_div_def mean_overall_def)

text \<open>
  The trend compares the two half means as the floats that the divisions give, and their
  difference as the float that the subtraction gives.
\<close>

lemma score_trend_eq:
  "score_trend m =
     Inr (if length (scores m) < 3 then ''not_enough_data''
          else if fsub (to_double (mean_overall (drop (length (scores m) div 2) (scores m))))
                       (to_double (mean_overall (take (length (scores m) div 2) (scores m)))) > 1 / 2
               then ''improving''
          else if fsub (to_double (mean_overall (drop (length (scores m) div 2) (scores m))))
                       (to_double (mean_overall (take (length (scores m) div 2) (scores m)))) < - (1 / 2)
               then ''declining''
          else ''stable'')"
proof (cases "length (scores m) < 3")
  case True
  then show ?thesis by (simp add: score_trend_def)
next
  case False
  then have ne: "take (length (scores m) div 2) (scores m) \<noteq> []"
    "drop (length (scores m) div 2) (scores m) \<noteq> []"
    by auto
  have "true_div (total_overall (take (length (scores m) div 2) (scores m)))
                (int (length (take (length (scores m) div 2) (scores m))))
               = Inr (to_double (mean_overall (take (length (scores m) div 2) (scores m))))"
    and "true_div (total_overall (drop (length (scores m) div 2) (scores m)))
                (int (length (drop (length (scores m) div 2) (scores m))))
               = Inr (to_double (mean_overall (drop (length (scores m) div 2) (scores m))))"
    by (rule true_div_mean [OF ne(1)], rule true_div_mean [OF ne(2)])
  then show ?thesis
    using False by (simp only: score_trend_def Let_def if_False sum.case)
qed

lemma round_half_even_near: "\<bar>of_int (round_half_even y) - y\<bar> \<le> 1 / 2"
proof -
  define f :: real where "f = of_int \<lfloor>y\<rfloor>"
  have lo: "f \<le> y" and hi: "y < f + 1"
    unfolding f_def by linarith+
  have "of_int (round_half_even y) = f \<and> y - f \<le> 1 / 2
        \<or> of_int (round_half_even y) = f + 1 \<and> 1 / 2 \<le> y - f"
    by (simp add: round_half_even_def Let_def f_def)
  then show ?thesis
    using lo hi by (elim disjE conjE) linarith+
qed

text \<open>
  Rounding to one decimal: the float returned is the one nearest to a multiple of one
  tenth that is at most one twentieth away from the exact value of the argument.
\<close>

lemma round1_tenth:
  "\<exists>k :: int. round1 x = to_double (of_int k / 10) \<and> \<bar>of_int k / 10 - x\<bar> \<le> 1 / 20"
proof -
  have "\<bar>of_int (round_half_even (x * 10)) - x * 10\<bar> \<le> 1 / 2"
    by (rule round_half_even_near)
  then have "\<bar>of_int (round_half_even (x * 10)) / 10 - x\<bar> \<le> 1 / 20"
    by linarith
  then show ?thesis
    unfolding round1_def by blast
qed

lemma add_score_average:
  "add_score m score = Inr m1 \<Longrightarrow>
     scores m1 = scores m @ [score] \<and> average_score m1 = to_double (mean_overall (scores m1))"
  by (auto simp add: add_score_def true_div_def Let_def mean_overall_def split: if_splits)

lemmas session_defs =
  fresh_session_def start_session_def add_score_def true_div_def total_overall_def
  plain_score_def mean_overall_def

text \<open>
  Claim C4, as the claim states it, on a session with the scores 4, 4, 4, 4, 3, 3 and then
  5, 4, 4, 4, 4, 4. The mean of the second half exceeds the mean of the first half by
  exactly 0.5, not by more, and the summary still says \<^verbatim>\<open>improving\<close>: the two means are
  floats, and their difference as a float is above 0.5.
\<close>

theorem to_summary_trend_counterexample:
  "(\<exists>m d. add_scores fresh_session (map plain_score [4, 4, 4, 4, 3, 3, 5, 4, 4, 4, 4, 4]) = Inr m \<and>
           to_summary m = Inr d \<and> map_of d ''score_trend'' = Some (VStr ''improving'')) \<and>
   mean_overall (map plain_score [5, 4, 4, 4, 4, 4])
     - mean_overall (map plain_score [4, 4, 4, 4, 3, 3]) = 1 / 2"
proof -
  define m where "m = fresh_session\<lparr>scores := map plain_score [4, 4, 4, 4, 3, 3, 5, 4, 4, 4, 4, 4],
                       questions_answered := 12, average_score := to_double (47 / 12)\<rparr>"
  have a: "add_scores fresh_session (map plain_score [4, 4, 4, 4, 3, 3, 5, 4, 4, 4, 4, 4]) = Inr m"
    by (simp add: m_def session_defs Let_def)
  have t: "score_trend m = Inr ''improving''"
    by (simp add: m_def session_defs score_trend_def float_defs)
  obtain d where d: "to_summary m = Inr d" "map_of d ''score_trend'' = Some (VStr ''improving'')"
    by (simp add: to_summary_def t)
  have "mean_overall (map plain_score [5, 4, 4, 4, 4, 4])
          - mean_overall (map plain_score [4, 4, 4, 4, 3, 3]) = 1 / 2"
    by (simp add: session_defs)
  then show ?thesis
    using a d by blast
qed

text \<open>
  Claim C4, amended. For every session the summary is returned, and in it: the duration is
  0 when the session has not ended; the average score is the stored average rounded to one
  decimal (the float nearest to a multiple of one tenth that is at most one twentieth
  away); the trend is \<^verbatim>\<open>not_enough_data\<close> for fewer than 3 scores, and otherwise it is read
  off the floats that the program computes: \<^verbatim>\<open>improving\<close> when the float difference of the
  float means of the second and the first half is above 0.5, \<^verbatim>\<open>declining\<close> when it is below
  -0.5, and \<^verbatim>\<open>stable\<close> otherwise; the strengths and the improvements are the first 5 of all
  the responses' entries without repetitions, in the order in which they are first met
  (\<open>remdups\<close> keeps the last copy of an element, so the list is reversed before and after
  it).
\<close>

theorem to_summary_float_fields:
  "\<exists>d. to_summary m = Inr d \<and>
       (ended_at m = None \<longrightarrow> map_of d ''duration_minutes'' = Some (VFloat 0)) \<and>
       map_of d ''average_score'' = Some (VFloat (round1 (average_score m))) \<and>
       (\<exists>k :: int. round1 (average_score m) = to_double (of_int k / 10) \<and>
                    \<bar>of_int k / 10 - average_score m\<bar> \<le> 1 / 20) \<and>
       map_of d ''score_trend'' =
         Some (VStr (if length (scores m) < 3 then ''not_enough_data''
                     else if fsub (to_double (mean_overall (drop (length (scores m) div 2) (scores m))))
                                  (to_double (mean_overall (take (length (scores m) div 2) (scores m))))
                               > 1 / 2
                          then ''improving''
                     else if fsub (to_double (mean_overall (drop (length (scores m) div 2) (scores m))))
                                  (to_double (mean_overall (take (length (scores m) div 2) (scores m))))
                               < - (1 / 2)
                          then ''declining''
                     else ''stable'')) \<and>
       map_of d ''top_strengths'' =
         Some (VList (take 5 (rev (remdups (rev (concat (map strengths (scores m)))))))) \<and>
       map_of d ''areas_to_improve'' =
         Some (VList (take 5 (rev (remdups (rev (concat (map improvements (scores m))))))))"
proof -
  obtain t where t: "score_trend m = Inr t"
    using score_trend_eq [of m] by blast
  define d where "d =
    [(''session_id'', VStr (session_id m)),
     (''interview_type'', VStr (interview_type m)),
     (''duration_minutes'', VFloat (duration_minutes m)),
     (''questions_answered'', VInt (questions_answered m)),
     (''average_score'', VFloat (round1 (average_score m))),
     (''score_trend'', VStr t),
     (''top_strengths'', VList (aggregate_feedback strengths m)),
     (''areas_to_improve'', VList (aggregate_feedback improvements m))]"
  have 1: "to_summary m = Inr d"
    by (simp add: to_summary_def t d_def)
  have 2: "ended_at m = None \<longrightarrow> map_of d ''duration_minutes'' = Some (VFloat 0)"
    by (simp add: d_def duration_minutes_def)
  have 3: "map_of d ''average_score'' = Some (VFloat (round1 (average_score m)))"
    by (simp add: d_def)
  have 4: "map_of d ''score_trend'' = Some (VStr t)"
    by (simp add: d_def)
  have 5: "map_of d ''top_strengths'' = Some (VList (aggregate_feedback strengths m))"
    by (simp add: d_def)
  have 6: "map_of d ''areas_to_improve'' = Some (VList (aggregate_feedback improvements m))"
    by (simp add: d_def)
  show ?thesis
    apply (rule exI [of _ d])
    using 1 2 3 4 5 6 t score_trend_eq [of m] round1_tenth [of "average_score m"]
    by (simp only: aggregate_feedback_eq sum.inject simp_thms)
qed

theorem to_summary_float_fields_witness:
  "(\<exists>m d. add_scores fresh_session (map plain_score [5, 5, 9, 9]) = Inr m \<and>
           to_summary m = Inr d \<and> map_of d ''score_trend'' = Some (VStr ''improving'')) \<and>
   (\<exists>m d. add_scores fresh_session (map plain_score [7, 7]) = Inr m \<and>
           to_summary m = Inr d \<and> map_of d ''score_trend'' = Some (VStr ''not_enough_data'')) \<and>
   (\<exists>m d. add_scores fresh_session (map plain_score [6, 6, 6, 6, 6, 6, 6]) = Inr m \<and>
           ended_at m = None \<and> to_summary m = Inr d \<and>
           map_of d ''duration_minutes'' = Some (VFloat 0) \<and>
           map_of d ''average_score'' = Some (VFloat 6) \<and>
           map_of d ''score_trend'' = Some (VStr ''stable'') \<and>
           map_of d ''top_strengths'' = Some (VList []) \<and>
           map_of d ''areas_to_improve'' = Some (VList []))"
proof -
  define m1 where "m1 = fresh_session\<lparr>scores := map plain_score [5, 5, 9, 9],
                        questions_answered := 4, average_score := 7\<rparr>"
  define m2 where "m2 = fresh_session\<lparr>scores := map plain_score [7, 7],
                        questions_answered := 2, average_score := 7\<rparr>"
  define m3 where "m3 = fresh_session\<lparr>scores := map plain_score [6, 6, 6, 6, 6, 6, 6],
                        questions_answered := 7, average_score := 6\<rparr>"
  have a1: "add_scores fresh_session (map plain_score [5, 5, 9, 9]) = Inr m1"
    by (simp add: m1_def session_defs float_defs)
  have a2: "add_scores fresh_session (map plain_score [7, 7]) = Inr m2"
    by (simp add: m2_def session_defs float_defs)
  have a3: "add_scores fresh_session (map plain_score [6, 6, 6, 6, 6, 6, 6]) = Inr m3"
    by (simp add: m3_def session_defs float_defs)
  have "\<exists>d. to_summary m1 = Inr d \<and> map_of d ''score_trend'' = Some (VStr ''improving'')"
    using to_summary_float_fields [of m1] by (auto simp add: m1_def session_defs float_defs)
  moreover have "\<exists>d. to_summary m2 = Inr d \<and> map_of d ''score_trend'' = Some (VStr ''not_enough_data'')"
    using to_summary_float_fields [of m2] by (auto simp add: m2_def session_defs)
  moreover have "ended_at m3 = None \<and> (\<exists>d. to_summary m3 = Inr d \<and>
           map_of d ''duration_minutes'' = Some (VFloat 0) \<and>
           map_of d ''average_score'' = Some (VFloat 6) \<and>
           map_of d ''score_trend'' = Some (VStr ''stable'') \<and>
           map_of d ''top_strengths'' = Some (VList []) \<and>
           map_of d ''areas_to_improve'' = Some (VList []))"
    using to_summary_float_fields [of m3] by (auto simp add: m3_def session_defs float_defs)
  ultimately show ?thesis
    using a1 a2 a3 by blast
qed

section \<open>Retrieval\<close>

lemma default_threshold_bound:
  "fsub 1 (to_double (7 / 10)) = 1351079888211149 / 4503599627370496"
  by (simp add: float_defs)

lemma threshold_examples:
  "\<not> to_double (2 / 10) \<le> fsub 1 (to_double (8 / 10))"
  "to_double (8 / 10) \<le> fsub 1 (to_double (2 / 10))"
  by (simp_all add: float_defs)

text \<open>
  Claim C2, as the claim states it, on a threshold of 0.1 and a candidate at the distance
  0.9. Its similarity \<open>1 - d\<close> is below the threshold, as an exact number and as a float,
  and the candidate is kept: the program compares the distance with the float
  \<open>1 - threshold\<close>, which is the float 0.9 itself.
\<close>

theorem retrieve_similarity_counterexample:
  "retrieve boundary_retriever ''stacks'' None (Some 1) = Inr [doc_far] \<and>
   vectorstore boundary_retriever ''stacks'' 2 None = Inr [(doc_far, to_double (9 / 10))] \<and>
   \<not> score_threshold boundary_retriever \<le> 1 - to_double (9 / 10) \<and>
   \<not> score_threshold boundary_retriever \<le> fsub 1 (to_double (9 / 10))"
  by (simp add: boundary_retriever_def retrieve_def slice_to_def float_defs)

text \<open>
  Claim C2, amended. A call for \<open>n > 0\<close> results (given, or the default when no number is
  given) asks the store for \<open>2 * n\<close> candidates, keeps exactly those whose distance is at
  most the float \<open>1 - score_threshold\<close>, and returns the first \<open>n\<close> of them in rank order.
  When the store answers, the call returns without an error, with fewer than \<open>n\<close>
  documents (possibly none) when fewer candidates pass.
\<close>

theorem retrieve_distance_bound:
  assumes "0 < n" and "k = Some n \<or> (k = None \<and> default_k r = n)"
  shows "retrieve r query category k =
           (case vectorstore r query (2 * n) (category_filter category) of
              Inl e \<Rightarrow> Inl e
            | Inr results \<Rightarrow>
                Inr (take (nat n)
                       (map fst (filter (\<lambda>(doc, d). d \<le> fsub 1 (score_threshold r)) results)))) \<and>
         (vectorstore r query (2 * n) (category_filter category) = Inr results \<longrightarrow>
            (\<exists>docs. retrieve r query category k = Inr docs \<and>
               length docs =
                 min (nat n) (length (filter (\<lambda>(doc, d). d \<le> fsub 1 (score_threshold r)) results))))"
proof -
  have num: "(case k of None \<Rightarrow> default_k r | Some j \<Rightarrow> if j = 0 then default_k r else j) = n"
    using assms by auto
  have eq: "retrieve r query category k =
           (case vectorstore r query (2 * n) (category_filter category) of
              Inl e \<Rightarrow> Inl e
            | Inr results \<Rightarrow>
                Inr (take (nat n)
                       (map fst (filter (\<lambda>(doc, d). d \<le> fsub 1 (score_threshold r)) results))))"
    using assms(1)
    by (auto simp add: retrieve_def num slice_to_def category_filter_def mult.commute Let_def
             split: sum.splits)
  show ?thesis
    by (simp add: eq min.commute)
qed

theorem retrieve_distance_bound_witness:
  "(0 :: int) < 2 \<and> score_threshold sample_retriever = to_double (7 / 10) \<and>
   to_double (2 / 10) \<le> fsub 1 (score_threshold sample_retriever) \<and>
   \<not> to_double (35 / 100) \<le> fsub 1 (score_threshold sample_retriever) \<and>
   retrieve sample_retriever ''heaps'' (Some ''technical'') (Some 2) = Inr [doc_near] \<and>
   default_k sample_retriever = 4 \<and>
   retrieve sample_retriever ''heaps'' (Some ''technical'') None = Inr [doc_near]"
proof -
  have t: "score_threshold sample_retriever = to_double (7 / 10)"
    and k: "default_k sample_retriever = 4"
    by (simp_all add: sample_retriever_def create_retriever_def)
  have near: "to_double (2 / 10) \<le> fsub 1 (score_threshold sample_retriever)"
    unfolding t default_threshold_bound by (simp add: float_defs)
  have far: "\<not> to_double (35 / 100) \<le> fsub 1 (score_threshold sample_retriever)"
    unfolding t default_threshold_bound by (simp add: float_defs)
  have store: "vectorstore sample_retriever ''heaps'' (2 * n) (category_filter (Some ''technical''))
                 = Inr [(doc_near, to_double (2 / 10)), (doc_far, to_double (35 / 100))]"
    if "n = 2 \<or> n = 4" for n :: int
    using that by (auto simp add: sample_retriever_def create_retriever_def)
  have "retrieve sample_retriever ''heaps'' (Some ''technical'') (Some 2) = Inr [doc_near]"
    using retrieve_distance_bound [of 2 "Some 2" sample_retriever "''heaps''" "Some ''technical''"]
          store [of 2] near far
    by simp
  moreover have "retrieve sample_retriever ''heaps'' (Some ''technical'') None = Inr [doc_near]"
    using retrieve_distance_bound [of 4 None sample_retriever "''heaps''" "Some ''technical''"]
          store [of 4] near far k
    by simp
  ultimately show ?thesis
    using t k near far by simp
qed

text \<open>
  Claim C9. A call with \<open>k = 0\<close> is the call with no \<open>k\<close>: it returns up to
  \<open>default_k\<close> documents, not none.
\<close>

theorem retrieve_zero_k:
  "retrieve r query category (Some 0) = retrieve r query category None \<and>
   (0 \<le> default_k r \<longrightarrow>
      (\<forall>docs. retrieve r query category (Some 0) = Inr docs \<longrightarrow> length docs \<le> nat (default_k r)))"
  by (auto simp add: retrieve_def slice_to_def Let_def split: sum.splits)

theorem retrieve_zero_k_witness:
  "(0 :: int) \<le> default_k sample_retriever \<and>
   retrieve sample_retriever ''heaps'' None (Some 0) = Inr [doc_near] \<and>
   length [doc_near] \<le> nat (default_k sample_retriever)"
proof -
  have "to_double (2 / 10) \<le> fsub 1 (to_double (7 / 10))"
    and "\<not> to_double (35 / 100) \<le> fsub 1 (to_double (7 / 10))"
    unfolding default_threshold_bound by (simp_all add: float_defs)
  then show ?thesis
    using retrieve_zero_k [of sample_retriever "''heaps''" None]
    by (simp add: sample_retriever_def create_retriever_def retrieve_def slice_to_def)
qed

section \<open>Sample questions\<close>

lemma scan_question_lines_eq:
  "scan_question_lines ls questions = questions @ List.map_filter question_of_line ls"
  by (induction ls arbitrary: questions)
     (simp_all add: List.map_filter_simps question_of_line_def Let_def)

lemma scan_question_docs_eq:
  "scan_question_docs docs questions =
     questions @
     concat (map (\<lambda>doc. if metadata doc ''content_type'' = Some (MStr ''qa_pair'')
                         then List.map_filter question_of_line (split_on CHR 0x0A (page_content doc))
                         else []) docs)"
  by (induction docs arbitrary: questions) (simp_all add: scan_question_lines_eq)

lemma get_sample_questions_eq:
  assumes "retrieve r (case topic of None \<Rightarrow> itype @ '' interview questions''
                                 | Some t \<Rightarrow> if t = [] then itype @ '' interview questions'' else t)
             (Some itype) (Some count) = Inr docs"
  shows "get_sample_questions r itype topic count =
           Inr (slice_to count
                  (concat (map (\<lambda>doc. if metadata doc ''content_type'' = Some (MStr ''qa_pair'')
                         then List.map_filter question_of_line (split_on CHR 0x0A (page_content doc))
                         else []) docs)))"
  using assms by (simp add: get_sample_questions_def scan_question_docs_eq)

lemma question_of_plain_line: "question_of_line ''Q: What is a heap?'' = Some ''What is a heap?''"
  by (simp add: question_of_line_def str_strip_def is_space_def)

lemma bold_retriever_docs:
  "retrieve bold_retriever query (Some ''technical'') (Some 5) = Inr [bold_question_doc]"
proof -
  have "to_double (1 / 10) \<le> fsub 1 (to_double (7 / 10))"
    unfolding default_threshold_bound by (simp add: float_defs)
  then show ?thesis
    by (simp add: bold_retriever_def create_retriever_def retrieve_def slice_to_def)
qed

text \<open>
  Claim C8, on a line whose marker is in bold. The claim says that the question is
  extracted with the markdown emphasis stripped. The code removes the texts \<^verbatim>\<open>**Q:\<close> and
  \<^verbatim>\<open>Q:\<close> from the line and trims it, so the asterisks that close the bold marker stay in
  the question.
\<close>

theorem get_sample_questions_bold_marker:
  "get_sample_questions bold_retriever ''technical'' None 5 = Inr [''** What is a heap?'']"
  by (simp add: get_sample_questions_def bold_retriever_docs bold_question_doc_def
        slice_to_def enhance_metadata_def str_strip_def is_space_def)

section \<open>Chunking\<close>

lemma dropWhile_rev_keeps_head:
  assumes "dropWhile P t = t"
  shows "dropWhile P (rev (dropWhile P (rev t))) = rev (dropWhile P (rev t))"
proof (cases t)
  case Nil
  then show ?thesis by simp
next
  case (Cons x xs)
  have "\<not> P x"
  proof
    assume "P x"
    then have "dropWhile P xs = x # xs"
      using assms Cons by simp
    then have "length (dropWhile P xs) = Suc (length xs)"
      by simp
    then show False
      using length_dropWhile_le [of P xs] by simp
  qed
  then show ?thesis
    by (simp add: Cons dropWhile_append)
qed

lemma str_strip_idem: "str_strip (str_strip s) = str_strip s"
proof -
  have "dropWhile is_space (dropWhile is_space s) = dropWhile is_space s"
    by simp
  then have "dropWhile is_space (str_strip s) = str_strip s"
    unfolding str_strip_def by (rule dropWhile_rev_keeps_head)
  then show ?thesis
    by (simp add: str_strip_def)
qed

lemma chunk_short_document:
  assumes "int (length (page_content document)) \<le> chunk_size ch"
  shows "chunk_single_document ch document = [enhance_metadata document 0 1]"
    and "map page_content (chunk_single_document ch document) = [page_content document]"
    and "map (\<lambda>c. metadata c ''chunk_index'') (chunk_single_document ch document) = [Some (MInt 0)]"
    and "map (\<lambda>c. metadata c ''total_chunks'') (chunk_single_document ch document) = [Some (MInt 1)]"
  using assms by (simp_all add: chunk_single_document_def enhance_metadata_def Let_def)

lemma chunk_long_document_trimmed:
  assumes "\<not> int (length (page_content document)) \<le> chunk_size ch"
      and "c \<in> set (chunk_single_document ch document)"
  shows "str_strip (page_content c) = page_content c"
  using assms
  by (auto simp add: chunk_single_document_def enhance_metadata_def Let_def str_strip_idem)

text \<open>
  Claim C3, on a short document with surrounding whitespace. The claim says that the one
  chunk of a document of at most \<open>chunk_size\<close> characters is the trimmed content. The
  code returns the document itself, with its content as it was; only the chunks of a split
  document are trimmed.
\<close>

theorem chunk_short_document_untrimmed:
  "map page_content
     (chunk_single_document
        \<lparr>chunk_size = 512, chunk_overlap = 50, separators = DEFAULT_SEPARATORS, splitter = f\<rparr>
        \<lparr>page_content = '' Short answer.\<newline>'', metadata = md\<rparr>)
     = ['' Short answer.\<newline>''] \<and>
   str_strip '' Short answer.\<newline>'' = ''Short answer.''"
  by (simp add: chunk_single_document_def enhance_metadata_def str_strip_def is_space_def)

section \<open>Loading files\<close>

lemmas path_defs =
  resolve_path_def joinpath_def path_suffix_def path_name_def rfind_def str_lower_def
  lower_char_def is_upper_def SUPPORTED_EXTENSIONS_def rel_path_def knowledge_loader_def

text \<open>
  When the test for existence answers, loading returns a list of documents: a file that
  does not exist, an extension that is not supported, and an error while the file is read
  or parsed each give the empty list.
\<close>

lemma load_file_absorbs_errors:
  assumes "path_exists fs (resolve_path l file_path) = Inr found"
  shows "(\<exists>documents. load_file fs l file_path = Inr documents) \<and>
   (\<not> found \<longrightarrow> load_file fs l file_path = Inr []) \<and>
   (str_lower (path_suffix (resolve_path l file_path)) \<notin> SUPPORTED_EXTENSIONS \<longrightarrow>
      load_file fs l file_path = Inr []) \<and>
   (str_lower (path_suffix (resolve_path l file_path)) = ''.pdf'' \<and>
    load_pdf fs l (resolve_path l file_path) = Inl e \<longrightarrow> load_file fs l file_path = Inr []) \<and>
   (str_lower (path_suffix (resolve_path l file_path)) \<noteq> ''.pdf'' \<and>
    load_text fs l (resolve_path l file_path) = Inl e \<longrightarrow> load_file fs l file_path = Inr [])"
  using assms by (auto simp add: load_file_def Let_def split: sum.splits)

lemma load_file_errors_example:
  "load_file failing_fs knowledge_loader (rel_path [''missing.md'']) = Inr [] \<and>
   load_file failing_fs knowledge_loader (rel_path [''notes.docx'']) = Inr [] \<and>
   load_file failing_fs knowledge_loader (rel_path [''broken.PDF'']) = Inr [] \<and>
   load_file failing_fs knowledge_loader (rel_path [''notes.md'']) = Inr []"
  by (simp add: load_file_def load_pdf_def load_text_def failing_fs_def path_defs Let_def
        str_strip_def is_space_def)

lemma load_file_raises_with_exists:
  "path_exists fs (resolve_path l file_path) = Inl e \<Longrightarrow> load_file fs l file_path = Inl e"
  by (simp add: load_file_def)

text \<open>
  Claim C5, on a file name of 307 characters. The claim says that loading never raises.
  The test for existence stands before the \<^verbatim>\<open>try\<close> block, \<^verbatim>\<open>Path.exists\<close> raises the
  \<^verbatim>\<open>OSError\<close> of a name that is too long, and loading raises it in turn.
\<close>

theorem load_file_long_name_raises:
  "load_file long_name_fs knowledge_loader (rel_path [replicate 303 CHR ''a'' @ ''.md''])
     = Inl OSError"
  by (simp add: load_file_def long_name_fs_def resolve_path_def joinpath_def rel_path_def
        knowledge_loader_def)

lemma relative_to_joinpath:
  "\<not> is_absolute rel \<Longrightarrow>
     relative_to (joinpath base rel) base = Inr \<lparr>is_absolute = False, segments = segments rel\<rparr>"
  by (simp add: relative_to_def joinpath_def)

lemma extract_category_joinpath:
  "\<not> is_absolute rel \<Longrightarrow>
     extract_category l (joinpath (base_path l) rel) =
       (if 1 < length (segments rel) then segments rel ! 0 else ''general'')"
  by (simp add: extract_category_def relative_to_joinpath parts_def)

lemma extract_category_outside_base:
  "relative_to p (base_path l) = Inl e \<Longrightarrow> extract_category l p = ''general''"
  by (simp add: extract_category_def)

lemma load_pages_category:
  assumes "load_pages l p pages i documents = Inr result"
      and "\<forall>doc \<in> set documents. metadata doc ''category'' = Some (MStr (extract_category l p))"
  shows "\<forall>doc \<in> set result. metadata doc ''category'' = Some (MStr (extract_category l p))"
  using assms
proof (induction pages arbitrary: i documents)
  case Nil
  then show ?case by simp
next
  case (Cons page rest)
  show ?case
  proof (cases page)
    case (Inl e)
    then show ?thesis using Cons.prems by simp
  next
    case (Inr content)
    show ?thesis
    proof (cases "str_strip content \<noteq> []")
      case True
      let ?doc = "\<lparr>page_content = content,
                     metadata = [''source'' \<mapsto> MStr (path_str p),
                                 ''filename'' \<mapsto> MStr (path_name p),
                                 ''category'' \<mapsto> MStr (extract_category l p),
                                 ''file_type'' \<mapsto> MStr ''.pdf'',
                                 ''page'' \<mapsto> MInt (i + 1)]\<rparr>"
      have run: "load_pages l p rest (i + 1) (documents @ [?doc]) = Inr result"
        using Cons.prems(1) Inr True by simp
      have "\<forall>doc \<in> set (documents @ [?doc]).
              metadata doc ''category'' = Some (MStr (extract_category l p))"
        using Cons.prems(2) by simp
      then show ?thesis
        using Cons.IH [OF run] by blast
    next
      case False
      then have "load_pages l p rest (i + 1) documents = Inr result"
        using Cons.prems(1) Inr by simp
      then show ?thesis
        using Cons.IH Cons.prems(2) by blast
    qed
  qed
qed

lemma load_file_category:
  assumes "load_file fs l file_path = Inr documents" and "doc \<in> set documents"
  shows "metadata doc ''category'' = Some (MStr (extract_category l (resolve_path l file_path)))"
proof -
  let ?p = "resolve_path l file_path"
  have plain: "metadata doc ''category'' = Some (MStr (extract_category l ?p))"
    if "load_text fs l ?p = Inr documents"
    using that assms(2) by (auto simp add: load_text_def split: sum.splits)
  have pdf: "metadata doc ''category'' = Some (MStr (extract_category l ?p))"
    if run: "load_pdf fs l ?p = Inr documents"
  proof (cases "import_pypdf fs")
    case (Some e)
    then show ?thesis using run assms(2) by (auto simp add: load_pdf_def split: if_splits)
  next
    case None
    then obtain pages where "pdf_reader fs ?p = Inr pages"
      and "load_pages l ?p pages 0 [] = Inr documents"
      using run by (auto simp add: load_pdf_def split: sum.splits)
    then show ?thesis
      using load_pages_category [of l ?p pages 0 "[]" documents] assms(2) by simp
  qed
  show ?thesis
    using assms plain pdf
    by (auto simp add: load_file_def Let_def split: if_splits sum.splits)
qed

text \<open>
  Claim C7. For a file under the base directory the category is the first segment of its
  path relative to the base, and \<^verbatim>\<open>general\<close> when the file sits directly under the base;
  this is the category of every document loaded from the file. A file at
  \<^verbatim>\<open>technical/arrays.md\<close> under the base has the category \<^verbatim>\<open>technical\<close>, and one at
  \<^verbatim>\<open>notes.md\<close> has \<^verbatim>\<open>general\<close>.
\<close>

theorem extract_category_first_segment:
  assumes "\<not> is_absolute rel"
  shows "extract_category l (joinpath (base_path l) rel) =
           (if 1 < length (segments rel) then segments rel ! 0 else ''general'') \<and>
         (\<forall>fs file_path documents doc.
            resolve_path l file_path = joinpath (base_path l) rel \<and>
            load_file fs l file_path = Inr documents \<and> doc \<in> set documents \<longrightarrow>
            metadata doc ''category'' =
              Some (MStr (if 1 < length (segments rel) then segments rel ! 0 else ''general''))) \<and>
         extract_category l (joinpath (base_path l) (rel_path [''technical'', ''arrays.md''])) = ''technical'' \<and>
         extract_category l (joinpath (base_path l) (rel_path [''notes.md''])) = ''general''"
proof -
  have 1: "extract_category l (joinpath (base_path l) rel) =
           (if 1 < length (segments rel) then segments rel ! 0 else ''general'')"
    using assms by (rule extract_category_joinpath)
  have 2: "metadata doc ''category'' =
              Some (MStr (if 1 < length (segments rel) then segments rel ! 0 else ''general''))"
    if "resolve_path l file_path = joinpath (base_path l) rel"
      and "load_file fs l file_path = Inr documents" and "doc \<in> set documents"
    for fs file_path documents doc
    using load_file_category [OF that(2) that(3)] that(1) 1 by simp
  have 3: "extract_category l (joinpath (base_path l) (rel_path [''technical'', ''arrays.md''])) = ''technical''"
    by (simp add: extract_category_joinpath rel_path_def)
  have 4: "extract_category l (joinpath (base_path l) (rel_path [''notes.md''])) = ''general''"
    by (simp add: extract_category_joinpath rel_path_def)
  show ?thesis
    using 1 2 3 4 by blast
qed

theorem extract_category_first_segment_witness:
  "\<not> is_absolute (rel_path [''technical'', ''arrays.md'']) \<and>
   extract_category knowledge_loader
     \<lparr>is_absolute = False, segments = [''knowledge'', ''technical'', ''arrays.md'']\<rparr> = ''technical'' \<and>
   extract_category knowledge_loader
     \<lparr>is_absolute = False, segments = [''knowledge'', ''notes.md'']\<rparr> = ''general'' \<and>
   map (\<lambda>doc. metadata doc ''category'')
     (projr (load_file plain_fs knowledge_loader (rel_path [''technical'', ''arrays.md''])))
     = [Some (MStr ''technical'')]"
proof -
  have a: "\<not> is_absolute (rel_path [''technical'', ''arrays.md''])"
    by (simp add: rel_path_def)
  have "load_file plain_fs knowledge_loader (rel_path [''technical'', ''arrays.md'']) =
          Inr [\<lparr>page_content = ''Q: What is an array?'',
                metadata = [''source'' \<mapsto> MStr ''knowledge/technical/arrays.md'',
                            ''filename'' \<mapsto> MStr ''arrays.md'',
                            ''category'' \<mapsto> MStr ''technical'',
                            ''file_type'' \<mapsto> MStr ''.md'']\<rparr>]"
    by (simp add: load_file_def load_text_def plain_fs_def path_defs path_str_def
          extract_category_def relative_to_def parts_def Let_def)
  then show ?thesis
    using a extract_category_first_segment [OF a, of knowledge_loader]
    by (simp add: knowledge_loader_def joinpath_def rel_path_def)
qed

end
